theory Spec2Isabelle
  imports Main
begin

section \<open>Python values and dictionaries\<close>

text \<open>
  A Python value is either \<open>None\<close> or a value of some universe \<open>'v\<close>; a
  \<open>dict[str, Any]\<close> is a partial map from keys to such values. A key bound to
  \<open>None\<close> is therefore \<open>Some None\<close>, an absent key is \<open>None\<close>.
\<close>

type_synonym 'v pydict = "string \<rightharpoonup> 'v option"

text \<open>\<open>d.get(k, None)\<close>: the value under \<open>k\<close>, and \<open>None\<close> when the key is absent.\<close>

definition dict_get :: "'v pydict \<Rightarrow> string \<Rightarrow> 'v option" where
  "dict_get d k = (case d k of None \<Rightarrow> None | Some v \<Rightarrow> v)"

text \<open>\<open>({} if dict_ is None else dict_) | kwargs\<close>: the right operand of \<open>|\<close> wins.\<close>

definition merge_fields :: "'v pydict option \<Rightarrow> 'v pydict \<Rightarrow> 'v pydict" where
  "merge_fields dct kwargs = (case dct of None \<Rightarrow> Map.empty | Some d \<Rightarrow> d) ++ kwargs"

section \<open>Exceptions and outcomes\<close>

text \<open>
  The exceptions the code can meet. \<open>LibraryError\<close> carries the class name of an
  exception that the engine library raises from one of its own checks.
\<close>

datatype error =
    IOError
  | AttributeError
  | TypeError
  | KeyError
  | OverflowError
  | RuntimeError
  | InvalidRequestError
  | LibraryError string

text \<open>
  A call either returns a value or raises. The state is returned in both cases: an
  exception leaves the assignments made before it in place.
\<close>

datatype 'a outcome = Raised error | Returned 'a

definition and_then :: "'a outcome \<times> 's \<Rightarrow> ('s \<Rightarrow> 'b outcome \<times> 's) \<Rightarrow> 'b outcome \<times> 's" where
  "and_then r f = (case r of (Raised e, s) \<Rightarrow> (Raised e, s) | (Returned x, s) \<Rightarrow> f s)"

section \<open>BaseUpdateTable\<close>

text \<open>
  A row of \<open>BaseUpdateTable\<close> has the primary key \<open>id\<close> inherited from the base table
  and the nullable column \<open>update_id\<close>. \<open>columns\<close> holds the further mapped columns
  that the row of a subclass has.
\<close>

record 'v update_row =
  row_id :: nat
  update_id :: "'v option"
  columns :: "'v pydict"

text \<open>
  \<open>BaseUpdateTable.update\<close>: the merged dictionary is consulted for \<open>update_id\<close> only,
  and the assignment is guarded by \<open>is not None\<close>. The method does not call the
  \<open>update\<close> of its parent class.
\<close>

definition update :: "'v pydict option \<Rightarrow> 'v pydict \<Rightarrow> 'v update_row \<Rightarrow> 'v update_row" where
  "update dct kwargs self =
     (let d = merge_fields dct kwargs in
      case dict_get d ''update_id'' of
        None \<Rightarrow> self
      | Some u \<Rightarrow> self\<lparr>update_id := Some u\<rparr>)"

text \<open>
  \<open>BaseUpdateTable.as_entry\<close>: the entry of the base class, with \<open>update_id\<close> added.
  The base class's \<open>as_entry\<close> is a parameter.
\<close>

definition as_entry :: "('v update_row \<Rightarrow> 'v pydict) \<Rightarrow> 'v update_row \<Rightarrow> 'v pydict" where
  "as_entry base_as_entry self = (base_as_entry self)(''update_id'' \<mapsto> update_id self)"

subsection \<open>Queries\<close>

text \<open>
  A session is modelled by the rows it sees, in the engine's result order. The column
  \<open>update_id\<close> is a \<open>BigInteger\<close>: stored values are integers or \<open>NULL\<close>.
  An SQL comparison with \<open>NULL\<close> is unknown, and \<open>WHERE\<close> keeps the rows whose
  condition is true.
\<close>

type_synonym session = "int update_row list"

definition sql_ge :: "int option \<Rightarrow> int \<Rightarrow> bool option" where
  "sql_ge c t = (case c of None \<Rightarrow> None | Some i \<Rightarrow> Some (t \<le> i))"

definition sql_gt :: "int option \<Rightarrow> int \<Rightarrow> bool option" where
  "sql_gt c t = (case c of None \<Rightarrow> None | Some i \<Rightarrow> Some (t < i))"

definition sql_where :: "('r \<Rightarrow> bool option) \<Rightarrow> 'r list \<Rightarrow> 'r list" where
  "sql_where p rs = filter (\<lambda>r. p r = Some True) rs"

text \<open>\<open>func.max\<close> skips \<open>NULL\<close> and is \<open>NULL\<close> when no value is left.\<close>

fun sql_max :: "int option list \<Rightarrow> int option" where
  "sql_max [] = None"
| "sql_max (None # cs) = sql_max cs"
| "sql_max (Some i # cs) = (case sql_max cs of None \<Rightarrow> Some i | Some m \<Rightarrow> Some (max i m))"

text \<open>
  The threshold is bound as a statement parameter when the statement is executed. The
  database integer is a signed 64-bit value: a Python integer outside that range cannot be
  bound and the execution raises \<open>OverflowError\<close>.
\<close>

definition int64 :: "int \<Rightarrow> bool" where
  "int64 t = (- (2 ^ 63) \<le> t \<and> t < 2 ^ 63)"

text \<open>What a query hands back: the engine's result object, or materialised entries.\<close>

datatype ('r, 'e) query_result = Result "'r list" | Entries "'e list"

definition get_last_update_id :: "session \<Rightarrow> int option" where
  "get_last_update_id session = sql_max (map update_id session)"

definition get_last_update_id_async :: "session \<Rightarrow> int option" where
  "get_last_update_id_async session = sql_max (map update_id session)"

definition get_from_update ::
  "(int update_row \<Rightarrow> int pydict) \<Rightarrow> session \<Rightarrow> int \<Rightarrow> bool \<Rightarrow> bool
     \<Rightarrow> (int update_row, int pydict) query_result outcome" where
  "get_from_update base_as_entry session uid inclusive as_entries =
     (if \<not> int64 uid then Raised OverflowError
      else
        (let results =
           (if inclusive then sql_where (\<lambda>r. sql_ge (update_id r) uid) session
            else sql_where (\<lambda>r. sql_gt (update_id r) uid) session)
         in Returned (if as_entries then Entries (map (as_entry base_as_entry) results)
                      else Result results)))"

definition get_from_update_async ::
  "(int update_row \<Rightarrow> int pydict) \<Rightarrow> session \<Rightarrow> int \<Rightarrow> bool \<Rightarrow> bool
     \<Rightarrow> (int update_row, int pydict) query_result outcome" where
  "get_from_update_async base_as_entry session uid inclusive as_entries =
     (if \<not> int64 uid then Raised OverflowError
      else
        (let results =
           (if inclusive then sql_where (\<lambda>r. sql_ge (update_id r) uid) session
            else sql_where (\<lambda>r. sql_gt (update_id r) uid) session)
         in Returned (if as_entries then Entries (map (as_entry base_as_entry) results)
                      else Result results)))"

section \<open>BaseSingletonTable\<close>

text \<open>
  An ORM session on a singleton table: the rows it sees and whether a transaction has
  begun on it. Executing a statement begins a transaction when none has begun, and the
  transaction stays open until the session is committed or rolled back.
  \<open>scalar()\<close> is the first row or \<open>None\<close>.
\<close>

record 'r orm_session =
  rows :: "'r list"
  in_transaction :: bool

fun scalar :: "'r list \<Rightarrow> 'r option" where
  "scalar [] = None"
| "scalar (r # rs) = Some r"

definition execute_select :: "'r orm_session \<Rightarrow> 'r option \<times> 'r orm_session" where
  "execute_select s = (scalar (rows s), s\<lparr>in_transaction := True\<rparr>)"

text \<open>
  \<open>with session.begin()\<close>: \<open>begin()\<close> raises \<open>InvalidRequestError\<close> on a session whose
  transaction has already begun. Otherwise the block runs inside a new transaction, which
  is committed when the block returns and rolled back when it raises.
\<close>

definition begin_block ::
  "('r orm_session \<Rightarrow> 'a outcome \<times> 'r orm_session) \<Rightarrow> 'r orm_session
     \<Rightarrow> 'a outcome \<times> 'r orm_session" where
  "begin_block body s =
     (if in_transaction s then (Raised InvalidRequestError, s)
      else (case body (s\<lparr>in_transaction := True\<rparr>) of
              (Raised e, s') \<Rightarrow> (Raised e, s\<lparr>in_transaction := False\<rparr>)
            | (Returned x, s') \<Rightarrow> (Returned x, s'\<lparr>in_transaction := False\<rparr>)))"

text \<open>
  \<open>create_entry\<close>. The row's \<open>update\<close> and the class's \<open>insert\<close> are methods of the base
  table, reached by dynamic dispatch: they are parameters. The call
  \<open>cls.insert(session=session, entry=entry, as_entry=True, begin=False, **kwargs)\<close>
  passes \<open>as_entry\<close> by name, so a keyword field of that name makes the call itself a
  \<open>TypeError\<close>.
\<close>

definition create_entry ::
  "('r orm_session \<Rightarrow> 'v pydict option \<Rightarrow> 'v pydict \<Rightarrow> unit outcome \<times> 'r orm_session)
     \<Rightarrow> ('v pydict option \<Rightarrow> 'v pydict \<Rightarrow> 'r \<Rightarrow> 'r)
     \<Rightarrow> 'r orm_session \<Rightarrow> 'v pydict option \<Rightarrow> bool \<Rightarrow> 'v pydict
     \<Rightarrow> unit outcome \<times> 'r orm_session" where
  "create_entry ins upd session entry begin kwargs =
     (if begin then
        begin_block (\<lambda>s0. case execute_select s0 of
            (None, s) \<Rightarrow>
              (if kwargs ''as_entry'' \<noteq> None then (Raised TypeError, s) else ins s entry kwargs)
          | (Some result, s) \<Rightarrow>
              (Returned (), s\<lparr>rows := (rows s)[0 := upd entry kwargs result]\<rparr>)) session
      else
        (case execute_select session of
            (None, s) \<Rightarrow>
              (if kwargs ''as_entry'' \<noteq> None then (Raised TypeError, s) else ins s entry kwargs)
          | (Some result, s) \<Rightarrow>
              (Returned (), s\<lparr>rows := (rows s)[0 := upd entry kwargs result]\<rparr>)))"

text \<open>\<open>set_entry\<close> calls \<open>update\<close> on whatever \<open>scalar()\<close> gave: \<open>None\<close> has no such attribute.\<close>

definition set_entry ::
  "('v pydict option \<Rightarrow> 'v pydict \<Rightarrow> 'r \<Rightarrow> 'r)
     \<Rightarrow> 'r orm_session \<Rightarrow> 'v pydict option \<Rightarrow> bool \<Rightarrow> 'v pydict
     \<Rightarrow> unit outcome \<times> 'r orm_session" where
  "set_entry upd session entry begin kwargs =
     (if begin then
        begin_block (\<lambda>s0. case execute_select s0 of
            (None, s) \<Rightarrow> (Raised AttributeError, s)
          | (Some result, s) \<Rightarrow>
              (Returned (), s\<lparr>rows := (rows s)[0 := upd entry kwargs result]\<rparr>)) session
      else
        (case execute_select session of
            (None, s) \<Rightarrow> (Raised AttributeError, s)
          | (Some result, s) \<Rightarrow>
              (Returned (), s\<lparr>rows := (rows s)[0 := upd entry kwargs result]\<rparr>)))"

text \<open>\<open>get_entry\<close>: the row's entry, the row itself, or the empty dictionary.\<close>

datatype ('r, 'v) entry_result = EntryDict "'v pydict" | EntryRow 'r

definition get_entry ::
  "('r \<Rightarrow> 'v pydict) \<Rightarrow> 'r orm_session \<Rightarrow> bool \<Rightarrow> ('r, 'v) entry_result \<times> 'r orm_session" where
  "get_entry row_as_entry session as_ent =
     (case execute_select session of
        (None, s) \<Rightarrow> (EntryDict Map.empty, s)
      | (Some result, s) \<Rightarrow>
          (if as_ent then EntryDict (row_as_entry result) else EntryRow result, s))"

subsection \<open>BaseMetaInformationTable\<close>

definition create_information ::
  "('r orm_session \<Rightarrow> 'v pydict option \<Rightarrow> 'v pydict \<Rightarrow> unit outcome \<times> 'r orm_session)
     \<Rightarrow> ('v pydict option \<Rightarrow> 'v pydict \<Rightarrow> 'r \<Rightarrow> 'r)
     \<Rightarrow> 'r orm_session \<Rightarrow> 'v pydict option \<Rightarrow> bool \<Rightarrow> 'v pydict
     \<Rightarrow> unit outcome \<times> 'r orm_session" where
  "create_information ins upd session entry begin kwargs =
     create_entry ins upd session entry begin kwargs"

definition set_information ::
  "('v pydict option \<Rightarrow> 'v pydict \<Rightarrow> 'r \<Rightarrow> 'r)
     \<Rightarrow> 'r orm_session \<Rightarrow> 'v pydict option \<Rightarrow> bool \<Rightarrow> 'v pydict
     \<Rightarrow> unit outcome \<times> 'r orm_session" where
  "set_information upd session entry begin kwargs = set_entry upd session entry begin kwargs"

subsection \<open>The base table's row methods\<close>

text \<open>
  Modelled from the spec: \<open>BaseTable.insert\<close> (file \<open>tables/base/basetable.py\<close>) is
  not among the sources. The spec says that \<open>create_entry\<close> "merges entry and kwargs as
  the target field set" and, when no row exists, "inserts a new row with those fields".
  A row is the mapping of its columns.
\<close>

definition base_insert ::
  "'v pydict orm_session \<Rightarrow> 'v pydict option \<Rightarrow> 'v pydict
     \<Rightarrow> unit outcome \<times> 'v pydict orm_session" where
  "base_insert session entry kwargs =
     (Returned (), session\<lparr>rows := rows session @ [merge_fields entry kwargs],
                            in_transaction := True\<rparr>)"

text \<open>
  Modelled from the spec: \<open>BaseTable.update\<close> (file \<open>tables/base/basetable.py\<close>) is
  not among the sources. The spec says that \<open>update\<close> "merges partial_mapping and
  overrides (overrides win), applies merged fields to the row's mutable columns".
\<close>

definition base_update :: "'v pydict option \<Rightarrow> 'v pydict \<Rightarrow> 'v pydict \<Rightarrow> 'v pydict" where
  "base_update dct kwargs self = self ++ merge_fields dct kwargs"

section \<open>DatabaseFile\<close>

text \<open>
  Engines, session factories and sessions are objects of the engine library. They are
  modelled by the arguments they were constructed from.
\<close>

type_synonym 'o kwargs = "(string \<times> 'o) list"

datatype 'o engine = Engine string "'o kwargs"

datatype 'o async_engine = AsyncEngine string "'o kwargs"

datatype 'o sessionmaker = Sessionmaker "'o engine option" "'o kwargs"

datatype 'o async_sessionmaker = AsyncSessionmaker "'o async_engine option" "'o kwargs"



text \<open>
  What the engine library decides is a parameter of the model. Each field answers, for the
  arguments of one library call, with the class name of the exception the call raises, or
  with \<open>None\<close> when the call goes through: building the synchronous engine, building the
  asynchronous engine, creating the tables of a schema through either engine, and
  checking the keyword arguments of a session.
\<close>

record 'o library =
  engine_error :: "string \<Rightarrow> 'o kwargs \<Rightarrow> string option"
  async_engine_error :: "string \<Rightarrow> 'o kwargs \<Rightarrow> string option"
  create_all_error :: "string \<Rightarrow> 'o engine \<Rightarrow> string option"
  create_all_async_error :: "string \<Rightarrow> 'o async_engine \<Rightarrow> string option"
  session_error :: "'o kwargs \<Rightarrow> string option"
  async_session_error :: "'o kwargs \<Rightarrow> string option"

definition has_key :: "string \<Rightarrow> 'o kwargs \<Rightarrow> bool" where
  "has_key k kw = (k \<in> set (map fst kw))"





text \<open>Calls made on objects outside the handle, in the order they happen.\<close>

datatype 'o effect =
    Dispose "'o engine"
  | DisposeAsync "'o async_engine"
  | CreateAll string "'o engine"
  | CreateAllAsync string "'o async_engine"

text \<open>
  The attributes of a handle. \<open>effects\<close> is not an attribute: it records the calls the
  handle has made on engines.
\<close>

record 'o database_file =
  path :: "string option"
  engine :: "'o engine option"
  async_engine :: "'o async_engine option"
  session_maker_kwargs :: "'o kwargs"
  session_maker :: "'o sessionmaker option"
  async_session_maker_kwargs :: "'o kwargs"
  async_session_maker :: "'o async_sessionmaker option"
  schema :: "string option"
  tables :: "(string \<times> string) list"
  effects :: "'o effect list"

text \<open>The class attributes: what an object holds before anything is assigned.\<close>

definition new_handle :: "'o database_file" where
  "new_handle = \<lparr>path = None, engine = None, async_engine = None,
     session_maker_kwargs = [], session_maker = None,
     async_session_maker_kwargs = [], async_session_maker = None,
     schema = None, tables = [], effects = []\<rparr>"

definition set_path :: "string option \<Rightarrow> 'o database_file \<Rightarrow> 'o database_file" where
  "set_path v self = self\<lparr>path := v\<rparr>"

definition is_open :: "'o database_file \<Rightarrow> bool" where
  "is_open self = (engine self \<noteq> None \<and> async_engine self \<noteq> None)"

text \<open>
  \<open>create_engine\<close> reads \<open>self._path.as_posix()\<close> before it assigns anything, and
  assigns \<open>_engine\<close> before it builds the asynchronous engine: when that second
  construction raises, the synchronous engine is already in place.
\<close>

definition sync_url :: "string \<Rightarrow> string" where
  "sync_url p = ''sqlite:///'' @ p"

definition async_url :: "string \<Rightarrow> string" where
  "async_url p = ''sqlite+aiosqlite:///'' @ p"

definition create_engine ::
  "'o library \<Rightarrow> 'o kwargs \<Rightarrow> 'o database_file \<Rightarrow> unit outcome \<times> 'o database_file" where
  "create_engine lib kw self =
     (case path self of
        None \<Rightarrow> (Raised AttributeError, self)
      | Some p \<Rightarrow>
          (case engine_error lib (sync_url p) kw of
             Some name \<Rightarrow> (Raised (LibraryError name), self)
           | None \<Rightarrow>
               (let s1 = self\<lparr>engine := Some (Engine (sync_url p) kw)\<rparr> in
                case async_engine_error lib (async_url p) kw of
                  Some name \<Rightarrow> (Raised (LibraryError name), s1)
                | None \<Rightarrow>
                    (Returned (), s1\<lparr>async_engine := Some (AsyncEngine (async_url p) kw)\<rparr>))))"

text \<open>
  \<open>sessionmaker(self._engine, **kwargs)\<close>: the engine fills the parameter \<open>bind\<close>, so a
  keyword of that name is a \<open>TypeError\<close>.
\<close>

definition build_session_maker ::
  "'o kwargs \<Rightarrow> 'o database_file \<Rightarrow> unit outcome \<times> 'o database_file" where
  "build_session_maker kw self =
     (if has_key ''bind'' kw then (Raised TypeError, self)
      else (Returned (), self\<lparr>session_maker := Some (Sessionmaker (engine self) kw)\<rparr>))"

definition build_async_session_maker ::
  "'o kwargs \<Rightarrow> 'o database_file \<Rightarrow> unit outcome \<times> 'o database_file" where
  "build_async_session_maker kw self =
     (if has_key ''bind'' kw then (Raised TypeError, self)
      else (Returned (),
            self\<lparr>async_session_maker := Some (AsyncSessionmaker (async_engine self) kw)\<rparr>))"

definition create_file ::
  "'o library \<Rightarrow> string option \<Rightarrow> 'o kwargs \<Rightarrow> 'o database_file
     \<Rightarrow> unit outcome \<times> 'o database_file" where
  "create_file lib pth kw self =
     (let s1 = (case pth of None \<Rightarrow> self | Some p \<Rightarrow> set_path (Some p) self) in
      and_then
        (if engine s1 = None \<or> pth \<noteq> None then create_engine lib kw s1 else (Returned (), s1))
        (\<lambda>s2. case schema s2 of
            None \<Rightarrow> (Raised AttributeError, s2)
          | Some sch \<Rightarrow>
              (case engine s2 of
                 None \<Rightarrow> (Raised AttributeError, s2)
               | Some e \<Rightarrow>
                   (case create_all_error lib sch e of
                      Some name \<Rightarrow> (Raised (LibraryError name), s2)
                    | None \<Rightarrow> (Returned (), s2\<lparr>effects := effects s2 @ [CreateAll sch e]\<rparr>)))))"


definition open_file ::
  "'o library \<Rightarrow> 'o kwargs \<Rightarrow> 'o database_file \<Rightarrow> unit outcome \<times> 'o database_file" where
  "open_file lib kw self =
     and_then (create_engine lib kw self)
       (\<lambda>s1. and_then (build_session_maker [] s1) (build_async_session_maker []))"

text \<open>
  \<open>close\<close> disposes the asynchronous engine through \<open>asyncio.run\<close>, which raises
  \<open>RuntimeError\<close> when the caller is itself running inside an event loop. At that point
  the synchronous engine and its factory have been dropped and the asynchronous ones are
  still in place. Whether an event loop is running is the first argument.
\<close>

definition close :: "bool \<Rightarrow> 'o database_file \<Rightarrow> bool outcome \<times> 'o database_file" where
  "close in_loop self =
     (let s1 = (case engine self of
                  None \<Rightarrow> self
                | Some e \<Rightarrow> self\<lparr>engine := None, effects := effects self @ [Dispose e]\<rparr>);
          s2 = s1\<lparr>session_maker := None\<rparr>
      in case async_engine s2 of
           None \<Rightarrow>
             (let s4 = s2\<lparr>async_session_maker := None\<rparr> in (Returned (engine s4 = None), s4))
         | Some a \<Rightarrow>
             (if in_loop then (Raised RuntimeError, s2)
              else
                (let s3 = s2\<lparr>async_engine := None, effects := effects s2 @ [DisposeAsync a]\<rparr>;
                     s4 = s3\<lparr>async_session_maker := None\<rparr>
                 in (Returned (engine s4 = None), s4))))"

definition close_async :: "'o database_file \<Rightarrow> bool outcome \<times> 'o database_file" where
  "close_async self =
     (let s1 = (case engine self of
                  None \<Rightarrow> self
                | Some e \<Rightarrow> self\<lparr>engine := None, effects := effects self @ [Dispose e]\<rparr>);
          s2 = (case async_engine s1 of
                  None \<Rightarrow> s1
                | Some a \<Rightarrow> s1\<lparr>async_engine := None, effects := effects s1 @ [DisposeAsync a]\<rparr>);
          s3 = s2\<lparr>async_session_maker := None\<rparr>
      in (Returned (engine s3 = None), s3))"



text \<open>
  \<open>construct\<close>. The components handed to the parent class play no part in the
  handle's engines and are left out. \<open>in_loop\<close> is passed on to \<open>close\<close>.
\<close>

definition construct ::
  "'o library \<Rightarrow> bool \<Rightarrow> string option \<Rightarrow> string option \<Rightarrow> (string \<times> string) list option
     \<Rightarrow> bool \<Rightarrow> bool \<Rightarrow> 'o kwargs \<Rightarrow> 'o database_file \<Rightarrow> unit outcome \<times> 'o database_file" where
  "construct lib in_loop pth sch tbls opn create kw self =
     (let s1 = (case pth of None \<Rightarrow> self | Some p \<Rightarrow> set_path (Some p) self);
          s2 = (case sch of None \<Rightarrow> s1 | Some c \<Rightarrow> s1\<lparr>schema := Some c\<rparr>);
          s3 = (case tbls of None \<Rightarrow> s2 | Some t \<Rightarrow> s2\<lparr>tables := t\<rparr>)
      in and_then
           (if create
            then and_then (create_file lib None [] s3)
                   (\<lambda>s. and_then (close in_loop s) (\<lambda>s'. (Returned (), s')))
            else (Returned (), s3))
           (\<lambda>s4. if opn then open_file lib kw s4 else (Returned (), s4)))"

subsection \<open>Pickling\<close>

text \<open>
  The pickled state is a dictionary from attribute names to attribute values. The parent
  class's \<open>__getstate__\<close> is taken to copy the attributes of the object and its
  \<open>__setstate__\<close> to assign them back; an entry whose value does not fit the attribute
  is skipped.
\<close>

datatype 'o attr =
    PathAttr "string option"
  | EngineAttr "'o engine option"
  | AsyncEngineAttr "'o async_engine option"
  | KwargsAttr "'o kwargs"
  | SessionmakerAttr "'o sessionmaker option"
  | AsyncSessionmakerAttr "'o async_sessionmaker option"
  | SchemaAttr "string option"
  | TablesAttr "(string \<times> string) list"
  | BoolAttr bool

type_synonym 'o pickled = "string \<rightharpoonup> 'o attr"

definition base_getstate :: "'o database_file \<Rightarrow> 'o pickled" where
  "base_getstate self =
     [''_path'' \<mapsto> PathAttr (path self),
      ''_engine'' \<mapsto> EngineAttr (engine self),
      ''_async_engine'' \<mapsto> AsyncEngineAttr (async_engine self),
      ''session_maker_kwargs'' \<mapsto> KwargsAttr (session_maker_kwargs self),
      ''_session_maker'' \<mapsto> SessionmakerAttr (session_maker self),
      ''async_session_maker_kwargs'' \<mapsto> KwargsAttr (async_session_maker_kwargs self),
      ''_async_session_maker'' \<mapsto> AsyncSessionmakerAttr (async_session_maker self),
      ''schema'' \<mapsto> SchemaAttr (schema self),
      ''tables'' \<mapsto> TablesAttr (tables self)]"

definition base_setstate :: "'o pickled \<Rightarrow> 'o database_file \<Rightarrow> 'o database_file" where
  "base_setstate state self =
     self\<lparr>path := (case state ''_path'' of Some (PathAttr v) \<Rightarrow> v | _ \<Rightarrow> path self),
          engine := (case state ''_engine'' of Some (EngineAttr v) \<Rightarrow> v | _ \<Rightarrow> engine self),
          async_engine :=
            (case state ''_async_engine'' of Some (AsyncEngineAttr v) \<Rightarrow> v | _ \<Rightarrow> async_engine self),
          session_maker_kwargs :=
            (case state ''session_maker_kwargs'' of Some (KwargsAttr v) \<Rightarrow> v
             | _ \<Rightarrow> session_maker_kwargs self),
          session_maker :=
            (case state ''_session_maker'' of Some (SessionmakerAttr v) \<Rightarrow> v | _ \<Rightarrow> session_maker self),
          async_session_maker_kwargs :=
            (case state ''async_session_maker_kwargs'' of Some (KwargsAttr v) \<Rightarrow> v
             | _ \<Rightarrow> async_session_maker_kwargs self),
          async_session_maker :=
            (case state ''_async_session_maker'' of Some (AsyncSessionmakerAttr v) \<Rightarrow> v
             | _ \<Rightarrow> async_session_maker self),
          schema := (case state ''schema'' of Some (SchemaAttr v) \<Rightarrow> v | _ \<Rightarrow> schema self),
          tables := (case state ''tables'' of Some (TablesAttr v) \<Rightarrow> v | _ \<Rightarrow> tables self)\<rparr>"

text \<open>\<open>if name in state: del state[name]\<close>\<close>

definition del_name :: "string \<Rightarrow> 'o pickled \<Rightarrow> 'o pickled" where
  "del_name name state = (if state name \<noteq> None then state(name := None) else state)"

definition getstate :: "'o database_file \<Rightarrow> 'o pickled" where
  "getstate self =
     (let state = base_getstate self;
          state = state(''is_open'' \<mapsto> BoolAttr (is_open self))
      in fold del_name [''_engine'', ''_async_engine'', ''_session_maker'', ''_async_session_maker'']
           state)"

text \<open>The truth value Python gives an attribute value in \<open>if was_open\<close>.\<close>

fun truthy :: "'o attr \<Rightarrow> bool" where
  "truthy (BoolAttr b) = b"
| "truthy (PathAttr v) = (v \<noteq> None)"
| "truthy (EngineAttr v) = (v \<noteq> None)"
| "truthy (AsyncEngineAttr v) = (v \<noteq> None)"
| "truthy (KwargsAttr v) = (v \<noteq> [])"
| "truthy (SessionmakerAttr v) = (v \<noteq> None)"
| "truthy (AsyncSessionmakerAttr v) = (v \<noteq> None)"
| "truthy (SchemaAttr v) = (v \<noteq> None)"
| "truthy (TablesAttr v) = (v \<noteq> [])"

text \<open>
  \<open>__setstate__\<close> runs on the object being rebuilt. \<open>state.pop("is_open")\<close> is a
  \<open>KeyError\<close> when the key is missing.
\<close>

definition setstate ::
  "'o library \<Rightarrow> 'o pickled \<Rightarrow> 'o database_file \<Rightarrow> unit outcome \<times> 'o database_file" where
  "setstate lib state self =
     (case state ''is_open'' of
        None \<Rightarrow> (Raised KeyError, self)
      | Some was_open \<Rightarrow>
          (let s1 = base_setstate (state(''is_open'' := None)) self
           in if truthy was_open then open_file lib [] s1 else (Returned (), s1)))"

text \<open>Unpickling: a new object, holding the class attributes, is given the state.\<close>

definition restore :: "'o library \<Rightarrow> 'o pickled \<Rightarrow> unit outcome \<times> 'o database_file" where
  "restore lib state = setstate lib state new_handle"

subsection \<open>Sequences of operations\<close>





text \<open>The two engine references are both null or both set.\<close>

definition paired :: "'o database_file \<Rightarrow> bool" where
  "paired self = ((engine self = None) = (async_engine self = None))"

section \<open>Reference notions for the watermark queries\<close>

text \<open>
  The rows a threshold asks for, and the update ids a table holds. A row whose
  \<open>update_id\<close> is \<open>NULL\<close> is neither at nor above any threshold and holds no id.
\<close>

definition update_id_ge :: "int update_row \<Rightarrow> int \<Rightarrow> bool" where
  "update_id_ge r t = (case update_id r of None \<Rightarrow> False | Some i \<Rightarrow> t \<le> i)"

definition update_id_gt :: "int update_row \<Rightarrow> int \<Rightarrow> bool" where
  "update_id_gt r t = (case update_id r of None \<Rightarrow> False | Some i \<Rightarrow> t < i)"

definition update_ids :: "session \<Rightarrow> int list" where
  "update_ids s = concat (map (\<lambda>r. case update_id r of None \<Rightarrow> [] | Some i \<Rightarrow> [i]) s)"

text \<open>The table of the scenario: update ids 1, 2 and 3.\<close>

definition three_rows :: session where
  "three_rows =
     [\<lparr>row_id = 10, update_id = Some 1, columns = Map.empty\<rparr>,
      \<lparr>row_id = 11, update_id = Some 2, columns = Map.empty\<rparr>,
      \<lparr>row_id = 12, update_id = Some 3, columns = Map.empty\<rparr>]"

section \<open>Example states\<close>

text \<open>
  A row of a subclass of the update table with one further column: \<open>update_id\<close> is 5
  and \<open>value\<close> is 1.
\<close>

definition valued_row :: "int update_row" where
  "valued_row = \<lparr>row_id = 1, update_id = Some 5, columns = [''value'' \<mapsto> Some 1]\<rparr>"

text \<open>
  Singleton sessions: one on an empty table and one on a table with a row, each before
  any statement has run, and the same two after \<open>get_entry\<close> has run on them.
\<close>

definition empty_session :: "int pydict orm_session" where
  "empty_session = \<lparr>rows = [], in_transaction = False\<rparr>"

definition one_row_session :: "int pydict orm_session" where
  "one_row_session = \<lparr>rows = [[''value'' \<mapsto> Some 1]], in_transaction = False\<rparr>"

definition queried_empty_session :: "int pydict orm_session" where
  "queried_empty_session = snd (get_entry (\<lambda>r. r) empty_session True)"

definition queried_one_row_session :: "int pydict orm_session" where
  "queried_one_row_session = snd (get_entry (\<lambda>r. r) one_row_session True)"

text \<open>
  An engine library in the manner of the one the code imports: both engines are built
  for every URL, except that the asynchronous engine refuses the option \<open>poolclass\<close>;
  tables are created through every engine; a session accepts the keywords listed and
  answers any other with a \<open>TypeError\<close>.
\<close>

definition session_keywords :: "string list" where
  "session_keywords = [''autoflush'', ''expire_on_commit'', ''autobegin'', ''twophase'',
     ''binds'', ''info'', ''join_transaction_mode'']"

definition sqlite_library :: "string library" where
  "sqlite_library =
     \<lparr>engine_error = (\<lambda>url kw. None),
      async_engine_error = (\<lambda>url kw. if has_key ''poolclass'' kw then Some ''ArgumentError'' else None),
      create_all_error = (\<lambda>sch e. None),
      create_all_async_error = (\<lambda>sch a. None),
      session_error =
        (\<lambda>kw. if list_all (\<lambda>k. k \<in> set session_keywords) (map fst kw) then None
              else Some ''TypeError''),
      async_session_error =
        (\<lambda>kw. if list_all (\<lambda>k. k \<in> set session_keywords) (map fst kw) then None
              else Some ''TypeError'')\<rparr>"

text \<open>
  The handle of the scenario: path \<open>db.sqlite\<close>, schema \<open>S\<close>, one table; then the
  same handle after \<open>create_file()\<close>, after \<open>open()\<close>, and after \<open>open()\<close> followed
  by \<open>path = None\<close>.
\<close>

definition fresh_handle :: "string database_file" where
  "fresh_handle = snd (construct sqlite_library False (Some ''db.sqlite'') (Some ''S'')
      (Some [(''items'', ''ItemTable'')]) False False [] new_handle)"

definition created_handle :: "string database_file" where
  "created_handle = snd (create_file sqlite_library None [] fresh_handle)"

definition opened_handle :: "string database_file" where
  "opened_handle = snd (open_file sqlite_library [] fresh_handle)"

definition pathless_open_handle :: "string database_file" where
  "pathless_open_handle = set_path None opened_handle"


text \<open>
  What unpickling starts from when the state of \<open>h\<close> is restored: a new object with the
  pickled attributes of \<open>h\<close> and no engine or session factory.
\<close>

definition closed_copy :: "'o database_file \<Rightarrow> 'o database_file" where
  "closed_copy h = new_handle\<lparr>path := path h, session_maker_kwargs := session_maker_kwargs h,
     async_session_maker_kwargs := async_session_maker_kwargs h, schema := schema h,
     tables := tables h\<rparr>"

text \<open>The library builds both engines for the path, with the given options.\<close>

definition builds_engines :: "'o library \<Rightarrow> string \<Rightarrow> 'o kwargs \<Rightarrow> bool" where
  "builds_engines lib p kw =
     (engine_error lib (sync_url p) kw = None \<and> async_engine_error lib (async_url p) kw = None)"




section \<open>Properties of the watermark queries\<close>

lemma sql_where_ge: "sql_where (\<lambda>r. sql_ge (update_id r) t) s = filter (\<lambda>r. update_id_ge r t) s"
  unfolding sql_where_def sql_ge_def update_id_ge_def
  by (rule filter_cong) (auto split: option.splits)

lemma sql_where_gt: "sql_where (\<lambda>r. sql_gt (update_id r) t) s = filter (\<lambda>r. update_id_gt r t) s"
  unfolding sql_where_def sql_gt_def update_id_gt_def
  by (rule filter_cong) (auto split: option.splits)

lemma update_ids_Cons:
  "update_ids (r # s) = (case update_id r of None \<Rightarrow> [] | Some i \<Rightarrow> [i]) @ update_ids s"
  by (simp add: update_ids_def)

lemma sql_max_update_ids:
  "sql_max (map update_id s) =
     (if update_ids s = [] then None else Some (Max (set (update_ids s))))"
proof (induction s)
  case Nil
  show ?case by (simp add: update_ids_def)
next
  case (Cons r s)
  show ?case
  proof (cases "update_id r")
    case None
    with Cons show ?thesis by (simp add: update_ids_Cons)
  next
    case (Some i)
    show ?thesis
    proof (cases "update_ids s = []")
      case True
      with Cons Some show ?thesis by (simp add: update_ids_Cons)
    next
      case False
      then have "Max (insert i (set (update_ids s))) = max i (Max (set (update_ids s)))"
        by simp
      with Cons Some False show ?thesis by (simp add: update_ids_Cons)
    qed
  qed
qed

text \<open>
  C3. For every table state and every threshold \<open>t\<close> in the signed 64-bit range of
  the \<open>update_id\<close> column, \<open>get_from_update\<close> with \<open>inclusive=True\<close> returns
  exactly the rows whose \<open>update_id\<close> is at least \<open>t\<close>, and with
  \<open>inclusive=False\<close> exactly the rows whose \<open>update_id\<close> is greater than \<open>t\<close>
  (as the result object or as the entries of those rows); a threshold outside that range
  raises \<open>OverflowError\<close>. \<open>get_last_update_id\<close> returns the maximum of the update
  ids in the table, or \<open>None\<close> when there is none, in particular on the empty table.
\<close>

theorem watermark_queries_exact:
  "(int64 t \<longrightarrow>
      get_from_update b s t True False = Returned (Result (filter (\<lambda>r. update_id_ge r t) s))
    \<and> get_from_update b s t False False = Returned (Result (filter (\<lambda>r. update_id_gt r t) s))
    \<and> get_from_update b s t True True
        = Returned (Entries (map (as_entry b) (filter (\<lambda>r. update_id_ge r t) s)))
    \<and> get_from_update b s t False True
        = Returned (Entries (map (as_entry b) (filter (\<lambda>r. update_id_gt r t) s))))
   \<and> (\<not> int64 t \<longrightarrow> get_from_update b s t inclusive as_entries = Raised OverflowError)
   \<and> get_last_update_id s = (if update_ids s = [] then None else Some (Max (set (update_ids s))))
   \<and> get_last_update_id [] = None"
  by (simp add: get_from_update_def get_last_update_id_def sql_where_ge sql_where_gt
      sql_max_update_ids)

theorem watermark_queries_exact_witness:
  "int64 2
   \<and> get_from_update (\<lambda>r. Map.empty) three_rows 2 True False
     = Returned (Result [\<lparr>row_id = 11, update_id = Some 2, columns = Map.empty\<rparr>,
         \<lparr>row_id = 12, update_id = Some 3, columns = Map.empty\<rparr>])
   \<and> get_from_update (\<lambda>r. Map.empty) three_rows 2 False False
     = Returned (Result [\<lparr>row_id = 12, update_id = Some 3, columns = Map.empty\<rparr>])
   \<and> \<not> int64 (- (2 ^ 63) - 1)
   \<and> get_from_update (\<lambda>r. Map.empty) three_rows (- (2 ^ 63) - 1) False True = Raised OverflowError
   \<and> get_last_update_id three_rows = Some 3"
  using watermark_queries_exact [of 2 "\<lambda>r. Map.empty" three_rows]
    watermark_queries_exact [of "- (2 ^ 63) - 1" "\<lambda>r. Map.empty" three_rows False True]
  by (simp add: three_rows_def update_id_ge_def update_id_gt_def update_ids_def int64_def)

text \<open>
  With the threshold \<open>2 ^ 63\<close> the query on the table of the scenario raises instead of
  returning the rows at or above the threshold.
\<close>

theorem threshold_overflow_counterexample:
  "get_from_update (\<lambda>r. Map.empty) three_rows (2 ^ 63) True False = Raised OverflowError
   \<and> get_from_update (\<lambda>r. Map.empty) three_rows (2 ^ 63) True False
      \<noteq> Returned (Result (filter (\<lambda>r. update_id_ge r (2 ^ 63)) three_rows))"
  by (simp add: get_from_update_def int64_def)

text \<open>
  C9. For every table state, threshold, inclusivity flag and entries flag,
  \<open>get_from_update_async\<close> gives the same result as \<open>get_from_update\<close>, and
  \<open>get_last_update_id_async\<close> the same value as \<open>get_last_update_id\<close>.
\<close>

theorem async_queries_agree:
  "get_from_update_async b s t inclusive as_entries = get_from_update b s t inclusive as_entries
   \<and> get_last_update_id_async s = get_last_update_id s"
  by (simp add: get_from_update_async_def get_from_update_def get_last_update_id_async_def
      get_last_update_id_def)

section \<open>Properties of the row update\<close>

lemma merge_fields_overrides:
  "merge_fields d kw k = (case kw k of Some v \<Rightarrow> Some v
      | None \<Rightarrow> (case d of None \<Rightarrow> None | Some m \<Rightarrow> m k))"
  by (simp add: merge_fields_def map_add_def split: option.splits)

lemma update_touches_update_id_only:
  "update_id (update d kw r)
     = (case dict_get (merge_fields d kw) ''update_id'' of None \<Rightarrow> update_id r | Some u \<Rightarrow> Some u)
   \<and> columns (update d kw r) = columns r \<and> row_id (update d kw r) = row_id r"
  by (simp add: update_def split: option.splits)

text \<open>
  C5. \<open>update\<close> of an update-tracked row does not apply the merged fields to the
  row's other columns: on a row whose column \<open>value\<close> is 1, the merge of
  \<open>{"value": 2}\<close> holds \<open>value = 2\<close>, and after \<open>update\<close> the column is still 1 and
  the row is unchanged.
\<close>

theorem update_drops_other_fields:
  "merge_fields (Some [''value'' \<mapsto> Some 2]) Map.empty ''value'' = Some (Some 2)
   \<and> columns (update (Some [''value'' \<mapsto> Some 2]) Map.empty valued_row) ''value'' = Some (Some 1)
   \<and> update (Some [''value'' \<mapsto> Some 2]) Map.empty valued_row = valued_row"
  by (simp add: merge_fields_def update_def dict_get_def valued_row_def)

section \<open>Properties of the singleton table\<close>

lemma queried_one_row_session_eq:
  "queried_one_row_session = \<lparr>rows = [[''value'' \<mapsto> Some 1]], in_transaction = True\<rparr>"
  by (simp add: queried_one_row_session_def one_row_session_def get_entry_def execute_select_def)

lemma queried_empty_session_eq:
  "queried_empty_session = \<lparr>rows = [], in_transaction = True\<rparr>"
  by (simp add: queried_empty_session_def empty_session_def get_entry_def execute_select_def)

text \<open>
  C7. On a table without a row \<open>set_entry\<close>, and \<open>set_information\<close> which delegates to
  it, raise and leave the table without a row. On a table with a row they return after
  updating that row in place, unless \<open>begin=True\<close> is passed on a session whose
  transaction has already begun: then they raise \<open>InvalidRequestError\<close> and leave the
  session and its row as they were.
\<close>

theorem set_entry_requires_row:
  "(rows s = [] \<longrightarrow>
      (\<exists>e. fst (set_entry upd s en b kw) = Raised e) \<and> rows (snd (set_entry upd s en b kw)) = [])
   \<and> (rows s = r # rs \<and> (b \<longrightarrow> \<not> in_transaction s) \<longrightarrow>
        fst (set_entry upd s en b kw) = Returned ()
        \<and> rows (snd (set_entry upd s en b kw)) = upd en kw r # rs)
   \<and> (rows s = r # rs \<and> b \<and> in_transaction s \<longrightarrow>
        set_entry upd s en b kw = (Raised InvalidRequestError, s))
   \<and> set_information upd s en b kw = set_entry upd s en b kw"
  by (auto simp add: set_entry_def set_information_def begin_block_def execute_select_def)

theorem set_entry_requires_row_witness:
  "set_entry base_update empty_session (Some [''value'' \<mapsto> Some 2]) False Map.empty
     = (Raised AttributeError, \<lparr>rows = [], in_transaction = True\<rparr>)
   \<and> rows (snd (set_entry base_update one_row_session (Some [''value'' \<mapsto> Some 2]) True Map.empty))
       = [[''value'' \<mapsto> Some 2]]
   \<and> rows (snd (set_entry base_update queried_one_row_session (Some [''value'' \<mapsto> Some 2])
        False Map.empty)) = [[''value'' \<mapsto> Some 2]]"
  using set_entry_requires_row [where s = empty_session and upd = base_update
      and en = "Some [''value'' \<mapsto> Some 2]" and b = False and kw = Map.empty
      and r = "[''value'' \<mapsto> Some 1]" and rs = "[]"]
    set_entry_requires_row [where s = one_row_session and upd = base_update
      and en = "Some [''value'' \<mapsto> Some 2]" and b = True and kw = Map.empty
      and r = "[''value'' \<mapsto> Some 1]" and rs = "[]"]
    set_entry_requires_row [where s = queried_one_row_session and upd = base_update
      and en = "Some [''value'' \<mapsto> Some 2]" and b = False and kw = Map.empty
      and r = "[''value'' \<mapsto> Some 1]" and rs = "[]"]
  by (simp add: empty_session_def one_row_session_def queried_one_row_session_eq
      set_entry_def execute_select_def base_update_def merge_fields_def)

text \<open>
  On a session that has already run \<open>get_entry\<close>, \<open>set_entry\<close> with \<open>begin=True\<close>
  raises and the row keeps its value.
\<close>

theorem set_entry_begin_counterexample:
  "rows queried_one_row_session = [[''value'' \<mapsto> Some 1]]
   \<and> set_entry base_update queried_one_row_session (Some [''value'' \<mapsto> Some 2]) True Map.empty
       = (Raised InvalidRequestError, queried_one_row_session)"
  by (simp add: queried_one_row_session_eq set_entry_def begin_block_def)

lemma map_add_same: "m ++ m = m"
  by (rule ext) (simp add: map_add_def split: option.splits)

lemma create_entry_base_returns:
  assumes "kw ''as_entry'' = None" and "b \<longrightarrow> \<not> in_transaction s"
  shows "create_entry base_insert base_update s e b kw =
     (Returned (),
      \<lparr>rows = (case rows s of [] \<Rightarrow> [merge_fields e kw]
                | r # rs \<Rightarrow> (r ++ merge_fields e kw) # rs),
       in_transaction = \<not> b\<rparr>)"
  using assms
  by (cases "rows s")
    (simp_all add: create_entry_def begin_block_def execute_select_def base_insert_def
      base_update_def)

text \<open>
  C4. Start from a singleton table with at most one row, with fields whose keyword part
  has no key \<open>as_entry\<close>, and pass \<open>begin=True\<close> only where the session has no
  transaction begun: to the first call on a session without one, to the second call only
  if the first call passed it too. Then two calls of \<open>create_entry\<close> with the same
  fields both return and leave exactly one row; that row holds every field of the call
  with the call's value, and it is exactly the call's field set when the table was empty
  before.
\<close>

theorem create_entry_twice:
  assumes "length (rows s) \<le> 1" and "kw ''as_entry'' = None"
    and "b1 \<longrightarrow> \<not> in_transaction s" and "b2 \<longrightarrow> b1"
  shows "\<exists>row. fst (create_entry base_insert base_update s e b1 kw) = Returned ()
          \<and> create_entry base_insert base_update
               (snd (create_entry base_insert base_update s e b1 kw)) e b2 kw
              = (Returned (), \<lparr>rows = [row], in_transaction = \<not> b2\<rparr>)
          \<and> (\<forall>k v. merge_fields e kw k = Some v \<longrightarrow> row k = Some v)
          \<and> (rows s = [] \<longrightarrow> row = merge_fields e kw)"
proof -
  let ?s1 = "snd (create_entry base_insert base_update s e b1 kw)"
  have first: "create_entry base_insert base_update s e b1 kw =
     (Returned (),
      \<lparr>rows = (case rows s of [] \<Rightarrow> [merge_fields e kw]
                | r # rs \<Rightarrow> (r ++ merge_fields e kw) # rs),
       in_transaction = \<not> b1\<rparr>)"
    using assms(2,3) by (rule create_entry_base_returns)
  have tr: "b2 \<longrightarrow> \<not> in_transaction ?s1"
    using assms(4) unfolding first by simp
  have second: "create_entry base_insert base_update ?s1 e b2 kw =
     (Returned (),
      \<lparr>rows = (case rows ?s1 of [] \<Rightarrow> [merge_fields e kw]
                | r # rs \<Rightarrow> (r ++ merge_fields e kw) # rs),
       in_transaction = \<not> b2\<rparr>)"
    using assms(2) tr by (rule create_entry_base_returns)
  show ?thesis
  proof (cases "rows s")
    case Nil
    then show ?thesis by (simp add: second) (simp add: first map_add_same)
  next
    case (Cons r rs)
    with assms(1) have "rs = []" by simp
    with Cons show ?thesis by (simp add: second) (simp add: first map_add_def)
  qed
qed

theorem create_entry_twice_witness:
  "length (rows one_row_session) \<le> 1
   \<and> create_entry base_insert base_update
        (snd (create_entry base_insert base_update one_row_session
           (Some [''value'' \<mapsto> Some 2]) True Map.empty))
        (Some [''value'' \<mapsto> Some 2]) False Map.empty
       = (Returned (), \<lparr>rows = [[''value'' \<mapsto> Some 2]], in_transaction = True\<rparr>)"
proof -
  have l: "length (rows one_row_session) \<le> 1" by (simp add: one_row_session_def)
  have t: "True \<longrightarrow> \<not> in_transaction one_row_session" by (simp add: one_row_session_def)
  have k: "(Map.empty :: int pydict) ''as_entry'' = None" by simp
  have f: "merge_fields (Some [''value'' \<mapsto> Some (2::int)]) Map.empty ''value'' = Some (Some 2)"
    by (simp add: merge_fields_def)
  from create_entry_twice [OF l k t, of False "Some [''value'' \<mapsto> Some 2]"]
  obtain row where r: "create_entry base_insert base_update
        (snd (create_entry base_insert base_update one_row_session
           (Some [''value'' \<mapsto> Some 2]) True Map.empty))
        (Some [''value'' \<mapsto> Some 2]) False Map.empty
       = (Returned (), \<lparr>rows = [row], in_transaction = \<not> False\<rparr>)"
    by auto
  have "row = [''value'' \<mapsto> Some 2]"
    using r k t
    by (simp add: create_entry_base_returns one_row_session_def merge_fields_def)
  with r l show ?thesis by simp
qed

text \<open>
  On an empty table whose session has already run \<open>get_entry\<close>, two calls with
  \<open>begin=True\<close> both raise and the table is still empty.
\<close>

theorem create_entry_begin_counterexample:
  "length (rows queried_empty_session) \<le> 1
   \<and> fst (create_entry base_insert base_update queried_empty_session
        (Some [''value'' \<mapsto> Some 2]) True Map.empty) = Raised InvalidRequestError
   \<and> rows (snd (create_entry base_insert base_update
        (snd (create_entry base_insert base_update queried_empty_session
           (Some [''value'' \<mapsto> Some 2]) True Map.empty))
        (Some [''value'' \<mapsto> Some 2]) True Map.empty)) = []"
  by (simp add: queried_empty_session_def empty_session_def get_entry_def execute_select_def
      create_entry_def begin_block_def)

section \<open>Properties of the database file handle\<close>

lemma fresh_handle_eq:
  "fresh_handle = \<lparr>path = Some ''db.sqlite'', engine = None, async_engine = None,
     session_maker_kwargs = [], session_maker = None,
     async_session_maker_kwargs = [], async_session_maker = None,
     schema = Some ''S'', tables = [(''items'', ''ItemTable'')], effects = []\<rparr>"
  by (simp add: fresh_handle_def construct_def new_handle_def set_path_def and_then_def)

lemma sqlite_library_plain:
  "engine_error sqlite_library url [] = None"
  "async_engine_error sqlite_library url [] = None"
  "create_all_error sqlite_library sch e = None"
  by (simp_all add: sqlite_library_def has_key_def)

lemma created_handle_eq:
  "created_handle = \<lparr>path = Some ''db.sqlite'',
     engine = Some (Engine ''sqlite:///db.sqlite'' []),
     async_engine = Some (AsyncEngine ''sqlite+aiosqlite:///db.sqlite'' []),
     session_maker_kwargs = [], session_maker = None,
     async_session_maker_kwargs = [], async_session_maker = None,
     schema = Some ''S'', tables = [(''items'', ''ItemTable'')],
     effects = [CreateAll ''S'' (Engine ''sqlite:///db.sqlite'' [])]\<rparr>"
  by (simp add: created_handle_def fresh_handle_eq create_file_def create_engine_def and_then_def
      sqlite_library_plain sync_url_def async_url_def)

lemma opened_handle_eq:
  "opened_handle = \<lparr>path = Some ''db.sqlite'',
     engine = Some (Engine ''sqlite:///db.sqlite'' []),
     async_engine = Some (AsyncEngine ''sqlite+aiosqlite:///db.sqlite'' []),
     session_maker_kwargs = [],
     session_maker = Some (Sessionmaker (Some (Engine ''sqlite:///db.sqlite'' [])) []),
     async_session_maker_kwargs = [],
     async_session_maker =
       Some (AsyncSessionmaker (Some (AsyncEngine ''sqlite+aiosqlite:///db.sqlite'' [])) []),
     schema = Some ''S'', tables = [(''items'', ''ItemTable'')], effects = []\<rparr>"
  by (simp add: opened_handle_def fresh_handle_eq open_file_def create_engine_def and_then_def
      build_session_maker_def build_async_session_maker_def sqlite_library_plain sync_url_def
      async_url_def has_key_def)

lemma create_engine_ok:
  "path h = Some p \<Longrightarrow> builds_engines lib p kw \<Longrightarrow>
     create_engine lib kw h =
       (Returned (), h\<lparr>engine := Some (Engine (sync_url p) kw),
                       async_engine := Some (AsyncEngine (async_url p) kw)\<rparr>)"
  by (simp add: create_engine_def builds_engines_def)



lemma create_engine_makers:
  "session_maker (snd (create_engine lib kw h)) = session_maker h
   \<and> async_session_maker (snd (create_engine lib kw h)) = async_session_maker h"
  by (simp add: create_engine_def Let_def split: option.splits)

lemma close_returned:
  "fst (close il h) = Returned x \<Longrightarrow>
     x \<and> engine (snd (close il h)) = None \<and> async_engine (snd (close il h)) = None
     \<and> session_maker (snd (close il h)) = None \<and> async_session_maker (snd (close il h)) = None"
  by (auto simp add: close_def Let_def split: option.splits if_splits)

lemma close_session_maker: "session_maker (snd (close il h)) = None"
  by (simp add: close_def Let_def split: option.splits)


lemma and_then_returned:
  "fst (and_then r f) = Returned x \<Longrightarrow>
     (\<exists>y. fst r = Returned y) \<and> and_then r f = f (snd r)"
  by (cases r) (auto simp add: and_then_def split: outcome.splits)

lemma construct_create_only:
  assumes "fst (construct lib il pth sch tbls False True kw h) = Returned ()"
  shows "\<exists>s x. snd (construct lib il pth sch tbls False True kw h) = snd (close il s)
           \<and> fst (close il s) = Returned x"
proof -
  define s3 where "s3 = (let s1 = (case pth of None \<Rightarrow> h | Some p \<Rightarrow> set_path (Some p) h);
          s2 = (case sch of None \<Rightarrow> s1 | Some c \<Rightarrow> s1\<lparr>schema := Some c\<rparr>)
      in (case tbls of None \<Rightarrow> s2 | Some t \<Rightarrow> s2\<lparr>tables := t\<rparr>))"
  let ?inner = "and_then (create_file lib None [] s3)
                   (\<lambda>s. and_then (close il s) (\<lambda>s'. (Returned (), s')))"
  have c: "construct lib il pth sch tbls False True kw h =
      and_then ?inner (\<lambda>s4. (Returned (), s4))"
    by (simp add: construct_def s3_def Let_def)
  with assms have "fst (and_then ?inner (\<lambda>s4. (Returned (), s4))) = Returned ()" by simp
  from and_then_returned [OF this] obtain y where
    i: "fst ?inner = Returned y" and o: "snd (and_then ?inner (\<lambda>s4. (Returned (), s4))) = snd ?inner"
    by auto
  from and_then_returned [OF i] obtain z where
    "fst (create_file lib None [] s3) = Returned z"
    and i2: "?inner = and_then (close il (snd (create_file lib None [] s3))) (\<lambda>s'. (Returned (), s'))"
    by auto
  let ?s = "snd (create_file lib None [] s3)"
  from i i2 have "fst (and_then (close il ?s) (\<lambda>s'. (Returned (), s'))) = Returned y" by simp
  from and_then_returned [OF this] obtain x where
    cl: "fst (close il ?s) = Returned x"
    and "and_then (close il ?s) (\<lambda>s'. (Returned (), s')) = (Returned (), snd (close il ?s))"
    by auto
  with i2 have "snd ?inner = snd (close il ?s)" by simp
  with c o cl show ?thesis by auto
qed




lemma open_file_ok:
  assumes "path h = Some p" and "builds_engines lib p []"
  shows "fst (open_file lib [] h) = Returned () \<and> is_open (snd (open_file lib [] h))"
  using assms
  by (simp add: open_file_def create_engine_ok and_then_def build_session_maker_def
      build_async_session_maker_def has_key_def is_open_def)

text \<open>
  C2. When \<open>create_file\<close> returns on a handle whose engines are paired, both engines
  exist, so \<open>is_open\<close> is true, and the session factories are as they were. The
  constructor's create path calls \<open>close()\<close> right after \<open>create_file()\<close>: a
  \<open>construct\<close> with \<open>create=True\<close> and \<open>open_=False\<close> that returns leaves the handle
  not open.
\<close>

theorem create_file_then_constructor_closes:
  "(paired h \<and> fst (create_file lib pth kw h) = Returned ()
      \<longrightarrow> is_open (snd (create_file lib pth kw h))
          \<and> session_maker (snd (create_file lib pth kw h)) = session_maker h
          \<and> async_session_maker (snd (create_file lib pth kw h)) = async_session_maker h)
   \<and> (fst (construct lib il pth sch tbls False True kw h) = Returned ()
      \<longrightarrow> \<not> is_open (snd (construct lib il pth sch tbls False True kw h)))"
proof (intro conjI impI)
  assume a: "paired h \<and> fst (create_file lib pth kw h) = Returned ()"
  then show "is_open (snd (create_file lib pth kw h))"
    by (auto simp add: create_file_def create_engine_def and_then_def is_open_def paired_def
        set_path_def Let_def split: option.splits if_splits prod.splits outcome.splits)
  show "session_maker (snd (create_file lib pth kw h)) = session_maker h"
    by (auto simp add: create_file_def create_engine_def and_then_def set_path_def Let_def
        split: option.splits if_splits prod.splits outcome.splits)
  show "async_session_maker (snd (create_file lib pth kw h)) = async_session_maker h"
    by (auto simp add: create_file_def create_engine_def and_then_def set_path_def Let_def
        split: option.splits if_splits prod.splits outcome.splits)
next
  assume "fst (construct lib il pth sch tbls False True kw h) = Returned ()"
  from construct_create_only [OF this] obtain s x where
    "snd (construct lib il pth sch tbls False True kw h) = snd (close il s)"
    and "fst (close il s) = Returned x"
    by auto
  with close_returned [of il s x]
  show "\<not> is_open (snd (construct lib il pth sch tbls False True kw h))"
    by (simp add: is_open_def)
qed

theorem create_file_then_constructor_closes_witness:
  "paired fresh_handle \<and> fst (create_file sqlite_library None [] fresh_handle) = Returned ()
   \<and> is_open (snd (create_file sqlite_library None [] fresh_handle))
   \<and> fst (construct sqlite_library False None None None False True [] fresh_handle) = Returned ()
   \<and> \<not> is_open (snd (construct sqlite_library False None None None False True [] fresh_handle))"
proof -
  have p: "paired fresh_handle" by (simp add: fresh_handle_eq paired_def)
  have r: "fst (create_file sqlite_library None [] fresh_handle) = Returned ()"
    by (simp add: fresh_handle_eq create_file_def create_engine_def and_then_def
        sqlite_library_plain)
  have c: "fst (construct sqlite_library False None None None False True [] fresh_handle)
      = Returned ()"
    by (simp add: fresh_handle_eq construct_def create_file_def create_engine_def and_then_def
        close_def sqlite_library_plain)
  from p r c create_file_then_constructor_closes [of fresh_handle sqlite_library None "[]"
      False None None]
  show ?thesis by blast
qed

text \<open>
  On the handle of the scenario \<open>create_file()\<close> returns and leaves it open.
\<close>

theorem create_file_leaves_open_counterexample:
  "fst (create_file sqlite_library None [] fresh_handle) = Returned ()
   \<and> is_open (snd (create_file sqlite_library None [] fresh_handle))"
  by (simp add: fresh_handle_eq create_file_def create_engine_def and_then_def is_open_def
      sqlite_library_plain)

text \<open>
  C6. \<open>close_async\<close> on an opened handle leaves the synchronous session factory in
  place, where \<open>close\<close> sets it to \<open>None\<close>, inside an event loop or not.
\<close>

theorem close_async_keeps_session_maker:
  "session_maker (snd (close_async opened_handle))
     = Some (Sessionmaker (Some (Engine ''sqlite:///db.sqlite'' [])) [])
   \<and> session_maker (snd (close False opened_handle)) = None
   \<and> session_maker (snd (close True opened_handle)) = None"
  by (simp add: opened_handle_eq close_async_def close_def)








lemma getstate_eq:
  "getstate h =
     [''_path'' \<mapsto> PathAttr (path h),
      ''session_maker_kwargs'' \<mapsto> KwargsAttr (session_maker_kwargs h),
      ''async_session_maker_kwargs'' \<mapsto> KwargsAttr (async_session_maker_kwargs h),
      ''schema'' \<mapsto> SchemaAttr (schema h),
      ''tables'' \<mapsto> TablesAttr (tables h),
      ''is_open'' \<mapsto> BoolAttr (is_open h)]"
  by (rule ext) (simp add: getstate_def base_getstate_def del_name_def)

lemma restore_getstate:
  "restore lib (getstate h) =
     (if is_open h then open_file lib [] (closed_copy h) else (Returned (), closed_copy h))"
  by (simp add: restore_def setstate_def getstate_eq base_setstate_def closed_copy_def
      new_handle_def)

lemma closed_copy_closed: "\<not> is_open (closed_copy h)"
  by (simp add: closed_copy_def new_handle_def is_open_def)

text \<open>
  C8. The pickled state records \<open>is_open\<close> and holds none of the engine and
  session-factory attributes. Restoring it builds a closed copy of the handle and calls
  \<open>open()\<close> on it exactly when the handle was open. For every handle that, whenever it
  is open, has a path for which the engine library builds both engines, restoring returns
  and the restored handle is open exactly when the handle was.
\<close>

theorem pickle_roundtrip:
  "getstate h ''is_open'' = Some (BoolAttr (is_open h))
   \<and> getstate h ''_engine'' = None \<and> getstate h ''_async_engine'' = None
   \<and> getstate h ''_session_maker'' = None \<and> getstate h ''_async_session_maker'' = None
   \<and> restore lib (getstate h)
       = (if is_open h then open_file lib [] (closed_copy h) else (Returned (), closed_copy h))
   \<and> \<not> is_open (closed_copy h)
   \<and> ((is_open h \<longrightarrow> (\<exists>p. path h = Some p \<and> builds_engines lib p []))
        \<longrightarrow> fst (restore lib (getstate h)) = Returned ()
          \<and> is_open (snd (restore lib (getstate h))) = is_open h)"
proof (intro conjI impI)
  assume p: "is_open h \<longrightarrow> (\<exists>p. path h = Some p \<and> builds_engines lib p [])"
  show "fst (restore lib (getstate h)) = Returned ()"
  proof (cases "is_open h")
    case True
    with p obtain q where "path (closed_copy h) = Some q" and "builds_engines lib q []"
      by (auto simp add: closed_copy_def)
    from open_file_ok [OF this] True show ?thesis by (simp add: restore_getstate)
  next
    case False
    then show ?thesis by (simp add: restore_getstate)
  qed
  show "is_open (snd (restore lib (getstate h))) = is_open h"
  proof (cases "is_open h")
    case True
    with p obtain q where "path (closed_copy h) = Some q" and "builds_engines lib q []"
      by (auto simp add: closed_copy_def)
    from open_file_ok [OF this] True show ?thesis by (simp add: restore_getstate)
  next
    case False
    then show ?thesis by (simp add: restore_getstate closed_copy_closed)
  qed
next
  show "restore lib (getstate h)
       = (if is_open h then open_file lib [] (closed_copy h) else (Returned (), closed_copy h))"
    by (rule restore_getstate)
  show "\<not> is_open (closed_copy h)" by (rule closed_copy_closed)
qed (simp_all add: getstate_eq)

theorem pickle_roundtrip_witness:
  "is_open opened_handle
   \<and> path opened_handle = Some ''db.sqlite'' \<and> builds_engines sqlite_library ''db.sqlite'' []
   \<and> getstate opened_handle ''is_open'' = Some (BoolAttr True)
   \<and> fst (restore sqlite_library (getstate opened_handle)) = Returned ()
   \<and> is_open (snd (restore sqlite_library (getstate opened_handle)))
   \<and> \<not> is_open fresh_handle
   \<and> \<not> is_open (snd (restore sqlite_library (getstate fresh_handle)))"
proof -
  have o: "is_open opened_handle" by (simp add: opened_handle_eq is_open_def)
  have p: "path opened_handle = Some ''db.sqlite''" by (simp add: opened_handle_eq)
  have b: "builds_engines sqlite_library ''db.sqlite'' []"
    by (simp add: builds_engines_def sqlite_library_plain)
  have c: "\<not> is_open fresh_handle" by (simp add: fresh_handle_eq is_open_def)
  note opened = pickle_roundtrip [of opened_handle sqlite_library]
  note fresh = pickle_roundtrip [of fresh_handle sqlite_library]
  have g: "getstate opened_handle ''is_open'' = Some (BoolAttr True)"
    using o opened [THEN conjunct1] by simp
  have hyp: "is_open opened_handle \<longrightarrow>
      (\<exists>q. path opened_handle = Some q \<and> builds_engines sqlite_library q [])"
    using p b by simp
  have keep: "fst (restore sqlite_library (getstate opened_handle)) = Returned ()
      \<and> is_open (snd (restore sqlite_library (getstate opened_handle))) = is_open opened_handle"
    using hyp opened [THEN conjunct2, THEN conjunct2, THEN conjunct2, THEN conjunct2,
        THEN conjunct2, THEN conjunct2, THEN conjunct2]
    by (rule mp [rotated])
  have hyp2: "is_open fresh_handle \<longrightarrow>
      (\<exists>q. path fresh_handle = Some q \<and> builds_engines sqlite_library q [])"
    using c by simp
  have keep2: "fst (restore sqlite_library (getstate fresh_handle)) = Returned ()
      \<and> is_open (snd (restore sqlite_library (getstate fresh_handle))) = is_open fresh_handle"
    using hyp2 fresh [THEN conjunct2, THEN conjunct2, THEN conjunct2, THEN conjunct2,
        THEN conjunct2, THEN conjunct2, THEN conjunct2]
    by (rule mp [rotated])
  from o p b g keep c keep2 show ?thesis by simp
qed

text \<open>
  An open handle whose path has been set to \<open>None\<close>: restoring its state raises in
  \<open>open()\<close> and leaves the restored handle closed.
\<close>

theorem pickle_reopen_counterexample:
  "is_open pathless_open_handle
   \<and> fst (restore sqlite_library (getstate pathless_open_handle)) = Raised AttributeError
   \<and> \<not> is_open (snd (restore sqlite_library (getstate pathless_open_handle)))"
  by (simp add: restore_getstate pathless_open_handle_def opened_handle_eq set_path_def
      is_open_def closed_copy_def new_handle_def open_file_def create_engine_def and_then_def)




























end
